theory Spec2Isabelle
  imports Main "HOL-Library.Log_Nat"
begin

section \<open>JavaScript numbers and the two builtins the page calls on them\<close>

text \<open>
  The page \<^verbatim>\<open>client/src/pages/customers.tsx\<close> reads the debt of a customer with
  \<^verbatim>\<open>parseFloat\<close>, compares the result with \<open>0\<close> and \<open>5000\<close> and prints it with
  \<^verbatim>\<open>toFixed(2)\<close>. A JavaScript number is a binary64 value: NaN, one of the two
  infinities, or a finite dyadic rational. The finite values are kept as exact rationals,
  so comparisons and \<^verbatim>\<open>toFixed\<close> are exact; the one place where binary64 shows is the
  rounding at the end of \<^verbatim>\<open>parseFloat\<close>, written out in \<open>toDouble\<close>. Negative zero
  is identified with zero (the page only compares and never divides).
\<close>

datatype jsnum = NaN | PosInf | NegInf | Fin rat

text \<open>The relational operators \<^verbatim>\<open>></\<close> and \<^verbatim>\<open>>=\<close>: false as soon as one side is NaN.\<close>

fun jsnum_gt :: "jsnum \<Rightarrow> jsnum \<Rightarrow> bool" where
  "jsnum_gt NaN _ = False"
| "jsnum_gt _ NaN = False"
| "jsnum_gt PosInf y = (y \<noteq> PosInf)"
| "jsnum_gt NegInf _ = False"
| "jsnum_gt (Fin x) PosInf = False"
| "jsnum_gt (Fin x) NegInf = True"
| "jsnum_gt (Fin x) (Fin y) = (y < x)"

fun jsnum_ge :: "jsnum \<Rightarrow> jsnum \<Rightarrow> bool" where
  "jsnum_ge NaN _ = False"
| "jsnum_ge _ NaN = False"
| "jsnum_ge PosInf _ = True"
| "jsnum_ge NegInf y = (y = NegInf)"
| "jsnum_ge (Fin x) PosInf = False"
| "jsnum_ge (Fin x) NegInf = True"
| "jsnum_ge (Fin x) (Fin y) = (y \<le> x)"

subsection \<open>Decimal digits\<close>

text \<open>
  Quantities that grow with the input are integers (\<open>int\<close>), whose numerals are binary;
  only lengths and exponents of powers are natural numbers.
\<close>

definition isDigit :: "char \<Rightarrow> bool" where
  "isDigit c = (48 \<le> (of_char c :: int) \<and> (of_char c :: int) \<le> 57)"

definition digitVal :: "char \<Rightarrow> int" where
  "digitVal c = (of_char c :: int) - 48"

definition digitChar :: "int \<Rightarrow> char" where
  "digitChar d = char_of (48 + d)"

text \<open>
  The value of a run of decimal digits, and the decimal digits of a non-negative integer
  (most significant first, \<open>''0''\<close> for zero).
\<close>

definition digitsVal :: "string \<Rightarrow> int" where
  "digitsVal ds = foldl (\<lambda>a c. 10 * a + digitVal c) 0 ds"

function digits :: "int \<Rightarrow> string" where
  "digits n = (if n < 10 then [digitChar n] else digits (n div 10) @ [digitChar (n mod 10)])"
  by pat_completeness auto
termination
  by (relation "measure nat") auto

declare digits.simps [simp del]

subsection \<open>Rounding a rational to binary64\<close>

definition pow2 :: "int \<Rightarrow> rat" where
  "pow2 e = (if 0 \<le> e then 2 ^ nat e else 1 / 2 ^ nat (- e))"

text \<open>\<open>flog2 a\<close> is the integer \<open>e\<close> with \<open>2^e \<le> a < 2^(e+1)\<close>, for a positive \<open>a\<close>.\<close>

definition flog2 :: "rat \<Rightarrow> int" where
  "flog2 a =
     (let (p, q) = quotient_of a;
          d = bitlen p - bitlen q
      in if pow2 d \<le> a then d else d - 1)"

definition roundTiesToEven :: "rat \<Rightarrow> int" where
  "roundTiesToEven x =
     (let f = \<lfloor>x\<rfloor>; r = x - of_int f
      in if r < 1 / 2 then f else if 1 / 2 < r then f + 1 else if even f then f else f + 1)"

text \<open>
  Round to nearest, ties to even, with 53 bits of precision, the least exponent \<open>-1022\<close>
  (below it the spacing stays \<open>2^-1074\<close>: subnormal numbers) and overflow to an infinity
  from \<open>2^1024\<close> on.
\<close>

definition toDouble :: "rat \<Rightarrow> jsnum" where
  "toDouble x =
     (if x = 0 then Fin 0
      else let a = \<bar>x\<bar>;
               e = max (flog2 a) (- 1022);
               ulp = pow2 (e - 52);
               y = of_int (roundTiesToEven (a / ulp)) * ulp
           in if 2 ^ 1024 \<le> y then (if x < 0 then NegInf else PosInf)
              else Fin (if x < 0 then - y else y))"

subsection \<open>\<^verbatim>\<open>parseFloat\<close>\<close>

text \<open>
  \<^verbatim>\<open>parseFloat(s)\<close> drops leading white space, takes the longest prefix of the rest that
  is a decimal literal (an optional sign, then \<^verbatim>\<open>Infinity\<close> or digits with an optional
  fraction and an optional exponent) and returns its value rounded to binary64; it returns
  NaN when no prefix is a literal. Characters are the code units below 256, so of the
  white space of the language the tab, the line ends, the space and the no-break space are
  covered.
\<close>

definition isWhiteSpace :: "char \<Rightarrow> bool" where
  "isWhiteSpace c = ((of_char c :: int) \<in> {9, 10, 11, 12, 13, 32, 160})"

text \<open>
  The exponent part of a literal: \<^verbatim>\<open>e\<close> or \<^verbatim>\<open>E\<close>, an optional sign and at least one
  digit. Anything else is not part of the literal and the exponent is \<open>0\<close>.
\<close>

definition exponentPart :: "string \<Rightarrow> int" where
  "exponentPart s =
     (case s of
        [] \<Rightarrow> 0
      | c # r \<Rightarrow>
          if c = CHR ''e'' \<or> c = CHR ''E'' then
            (case r of
               [] \<Rightarrow> 0
             | d # r' \<Rightarrow>
                 if d = CHR ''+'' \<or> d = CHR ''-'' then
                   (let ds = takeWhile isDigit r'
                    in if ds = [] then 0
                       else if d = CHR ''-'' then - digitsVal ds else digitsVal ds)
                 else digitsVal (takeWhile isDigit r))
          else 0)"

definition pow10 :: "int \<Rightarrow> rat" where
  "pow10 e = (if 0 \<le> e then 10 ^ nat e else 1 / 10 ^ nat (- e))"

text \<open>The unsigned literal at the head of a string: its exact value, if there is one.\<close>

definition unsignedLiteral :: "string \<Rightarrow> jsnum option" where
  "unsignedLiteral s =
     (if take 8 s = ''Infinity'' then Some PosInf
      else let ip = takeWhile isDigit s;
               r = dropWhile isDigit s;
               fp = (case r of [] \<Rightarrow> [] | c # r' \<Rightarrow> if c = CHR ''.'' then takeWhile isDigit r' else []);
               r2 = (case r of [] \<Rightarrow> [] | c # r' \<Rightarrow> if c = CHR ''.'' then dropWhile isDigit r' else r)
           in if ip = [] \<and> fp = [] then None
              else Some (toDouble
                     ((of_int (digitsVal ip) + of_int (digitsVal fp) / 10 ^ length fp)
                        * pow10 (exponentPart r2))))"

definition negate :: "jsnum \<Rightarrow> jsnum" where
  "negate v = (case v of NaN \<Rightarrow> NaN | PosInf \<Rightarrow> NegInf | NegInf \<Rightarrow> PosInf | Fin x \<Rightarrow> Fin (- x))"

definition parseFloat :: "string \<Rightarrow> jsnum" where
  "parseFloat s =
     (case dropWhile isWhiteSpace s of
        [] \<Rightarrow> NaN
      | c # r \<Rightarrow>
          if c = CHR ''-'' then (case unsignedLiteral r of None \<Rightarrow> NaN | Some v \<Rightarrow> negate v)
          else if c = CHR ''+'' then (case unsignedLiteral r of None \<Rightarrow> NaN | Some v \<Rightarrow> v)
          else (case unsignedLiteral (c # r) of None \<Rightarrow> NaN | Some v \<Rightarrow> v))"

subsection \<open>\<^verbatim>\<open>Number.prototype.toFixed\<close>\<close>

text \<open>
  From \<open>10^21\<close> on, \<^verbatim>\<open>toFixed\<close> gives up fixed notation and returns the number's
  default string, which for such a value is exponential: the shortest decimal significand
  \<open>s\<close> (of \<open>k\<close> digits) and the exponent \<open>n\<close> with \<open>s * 10^(n-k)\<close> rounding to the
  number. A binary64 value of that size is an integer of \<open>n0\<close> digits; for each \<open>k\<close> the
  two candidates are its leading \<open>k\<close> digits and their successor, and where both round to
  the number the closer one is taken (the even one in a tie).
\<close>

definition shortestAt :: "rat \<Rightarrow> nat \<Rightarrow> nat \<Rightarrow> (int \<times> nat) option" where
  "shortestAt x n0 k =
     (let p = 10 ^ (n0 - k);
          lo = \<lfloor>x\<rfloor> div p;
          hi = lo + 1;
          dl = x - of_int (lo * p);
          dh = of_int (hi * p) - x;
          okl = (toDouble (of_int (lo * p)) = Fin x);
          okh = (toDouble (of_int (hi * p)) = Fin x)
      in if okl \<and> (\<not> okh \<or> dl < dh \<or> (dl = dh \<and> even lo)) then Some (lo, n0)
         else if okh then Some (if hi = 10 ^ k then (1, n0 + 1) else (hi, n0))
         else None)"

fun firstShortest :: "rat \<Rightarrow> nat \<Rightarrow> nat list \<Rightarrow> (int \<times> nat) option" where
  "firstShortest x n0 [] = None"
| "firstShortest x n0 (k # ks) =
     (case shortestAt x n0 k of Some r \<Rightarrow> Some r | None \<Rightarrow> firstShortest x n0 ks)"

definition numberToStringLarge :: "rat \<Rightarrow> string" where
  "numberToStringLarge x =
     (let n0 = length (digits \<lfloor>x\<rfloor>)
      in case firstShortest x n0 [1..<n0 + 1] of
           None \<Rightarrow> digits \<lfloor>x\<rfloor>
         | Some (s, n) \<Rightarrow>
             (case digits s of
                [] \<Rightarrow> []
              | d # ds \<Rightarrow>
                  d # (if ds = [] then [] else CHR ''.'' # ds) @ ''e+'' @ digits (int n - 1)))"

text \<open>
  \<^verbatim>\<open>x.toFixed(f)\<close> for \<open>0 \<le> f \<le> 100\<close> (the page passes \<open>2\<close>). Below \<open>10^21\<close> the
  result is the integer \<open>n\<close> closest to \<open>x * 10^f\<close> (the larger one in a tie), written
  in decimal, padded with zeros to more than \<open>f\<close> digits, with a point before the last
  \<open>f\<close> digits.
\<close>

definition toFixed :: "jsnum \<Rightarrow> nat \<Rightarrow> string" where
  "toFixed v f =
     (case v of
        NaN \<Rightarrow> ''NaN''
      | PosInf \<Rightarrow> ''Infinity''
      | NegInf \<Rightarrow> ''-Infinity''
      | Fin x \<Rightarrow>
          (if x < 0 then ''-'' else []) @
          (let a = \<bar>x\<bar>
           in if 10 ^ 21 \<le> a then numberToStringLarge a
              else let n = \<lfloor>a * 10 ^ f + 1 / 2\<rfloor>;
                       m = digits n;
                       m' = (if length m \<le> f then replicate (f + 1 - length m) (CHR ''0'') @ m
                             else m);
                       k = length m'
                   in if f = 0 then m' else take (k - f) m' @ ''.'' @ drop (k - f) m'))"

text \<open>
  A text has exactly two decimal places: one or more digits, a point, two digits.
\<close>

definition twoDecimalPlaces :: "string \<Rightarrow> bool" where
  "twoDecimalPlaces s =
     (let k = length s
      in 4 \<le> k \<and> s ! (k - 3) = CHR ''.'' \<and> list_all isDigit (take (k - 3) s)
         \<and> list_all isDigit (drop (k - 2) s))"

section \<open>The customer record and the texts of the page\<close>

text \<open>
  The texts the page shows are Arabic literals of the source. Each one is a constructor
  here, named after its meaning, with the line of the source that holds it.
\<close>

datatype ui_text =
    Deleted_title                 \<comment> \<open>line 64: the title of the success toast\<close>
  | Customer_deleted_successfully \<comment> \<open>line 65\<close>
  | Unauthorized_title            \<comment> \<open>line 72\<close>
  | Logged_out_logging_in_again   \<comment> \<open>line 73\<close>
  | Failed_to_delete_customer     \<comment> \<open>line 82: the generic failure message\<close>
  | Customer_not_found            \<comment> \<open>line 84\<close>
  | Database_error_while_deleting \<comment> \<open>line 86: the database-layer hint\<close>
  | Error_deleting_customer_title \<comment> \<open>line 90\<close>
  | This_customer                 \<comment> \<open>line 99: the generic noun\<close>
  | Are_you_sure_to_delete        \<comment> \<open>line 103, before the name\<close>
  | Question_mark_blank_line      \<comment> \<open>line 103, after the name\<close>
  | This_action_cannot_be_undone  \<comment> \<open>line 103, the last sentence\<close>
  | Add_new_customer              \<comment> \<open>lines 160 and 194\<close>
  | No_customers_heading          \<comment> \<open>line 182\<close>
  | No_customers_match_search     \<comment> \<open>line 186\<close>
  | Start_by_adding_customers     \<comment> \<open>line 187\<close>
  | Active_badge                  \<comment> \<open>line 214\<close>
  | Inactive_badge                \<comment> \<open>line 214\<close>
  | Debt_label                    \<comment> \<open>line 299\<close>
  | Lira_sign                     \<comment> \<open>line 300\<close>
  | Limit_exceeded                \<comment> \<open>line 304: the overage notice\<close>

text \<open>A text is a sequence of pieces: literals of the source and strings of the data.\<close>

datatype piece = Loc ui_text | Str string

text \<open>
  \<^verbatim>\<open>Customer\<close> comes from the shared schema; the page reads these fields. The nullable
  ones are options, and \<open>id\<close> is \<open>customerId\<close> here (\<open>id\<close> is the identity function of HOL).
\<close>

record customer =
  customerId :: string
  name :: string
  phone :: "string option"
  email :: "string option"
  address :: "string option"
  isActive :: "bool option"
  totalDebt :: "string option"
  createdAt :: "string option"

text \<open>Truthiness of a nullable string and of a nullable boolean.\<close>

definition truthy :: "string option \<Rightarrow> bool" where
  "truthy v = (case v of None \<Rightarrow> False | Some s \<Rightarrow> s \<noteq> [])"

definition truthyB :: "bool option \<Rightarrow> bool" where
  "truthyB v = (v = Some True)"

section \<open>The debt indicator of a card (lines 275 to 309)\<close>

record debt_box =
  box_class :: string
  icon_class :: string
  amount_class :: string
  amount_text :: "piece list"
  overage_note :: "(string \<times> ui_text) option"

text \<open>
  \<^verbatim>\<open>customer.totalDebt && parseFloat(customer.totalDebt) > 0 && (...)\<close>: nothing is
  rendered for a null or empty \<open>totalDebt\<close> and for one whose number is not above zero.
\<close>

definition debtIndicator :: "customer \<Rightarrow> debt_box option" where
  "debtIndicator c =
     (case totalDebt c of
        None \<Rightarrow> None
      | Some s \<Rightarrow>
          if s = [] then None
          else if jsnum_gt (parseFloat s) (Fin 0) then
            Some \<lparr> box_class = ''flex items-center gap-2 p-2 rounded-md '' @
                     (if jsnum_ge (parseFloat s) (Fin 5000) then ''bg-red-50 border border-red-200''
                      else ''bg-yellow-50 border border-yellow-200''),
                   icon_class = ''h-4 w-4 '' @
                     (if jsnum_ge (parseFloat s) (Fin 5000) then ''text-red-500''
                      else ''text-yellow-500''),
                   amount_class =
                     (if jsnum_ge (parseFloat s) (Fin 5000) then ''text-red-700 font-semibold''
                      else ''text-yellow-700''),
                   amount_text =
                     [Loc Debt_label, Str '' '', Str (toFixed (parseFloat s) 2), Str '' '',
                      Loc Lira_sign],
                   overage_note =
                     (if jsnum_ge (parseFloat s) (Fin 5000)
                      then Some (''text-xs text-red-600'', Limit_exceeded) else None) \<rparr>
          else None)"

section \<open>\<^verbatim>\<open>getDebtStatusColor\<close> (lines 124 to 133)\<close>

text \<open>The argument is \<^verbatim>\<open>string | number | undefined\<close>.\<close>

datatype debt_arg = Undefined | StrArg string | NumArg jsnum

text \<open>\<^verbatim>\<open>!debt\<close>: undefined, the empty string, zero and NaN are falsy.\<close>

definition falsy :: "debt_arg \<Rightarrow> bool" where
  "falsy debt = (case debt of Undefined \<Rightarrow> True | StrArg s \<Rightarrow> s = [] | NumArg n \<Rightarrow> n = NaN \<or> n = Fin 0)"

text \<open>
  \<^verbatim>\<open>typeof debt === 'string' ? parseFloat(debt) : debt\<close>; \<^verbatim>\<open>isNaN\<close> converts
  \<^verbatim>\<open>undefined\<close> to NaN.
\<close>

definition debtNumber :: "debt_arg \<Rightarrow> jsnum" where
  "debtNumber debt = (case debt of StrArg s \<Rightarrow> parseFloat s | NumArg n \<Rightarrow> n | Undefined \<Rightarrow> NaN)"

definition getDebtStatusColor :: "debt_arg \<Rightarrow> string" where
  "getDebtStatusColor debt =
     (if falsy debt then ''border-yellow-500 text-yellow-500''
      else if debtNumber debt = NaN then ''border-yellow-500 text-yellow-500''
      else if jsnum_ge (debtNumber debt) (Fin 5000) then ''border-red-500 text-red-500''
      else ''border-yellow-500 text-yellow-500'')"

section \<open>The query cache, the page state and what the handlers do\<close>

text \<open>
  The page keeps its list in the query cache of the data-fetching library, under the key
  \<^verbatim>\<open>["/api/customers", search]\<close>. An entry holds the last data, whether the first
  fetch is still under way, and whether the entry has been invalidated (an invalidated
  entry is fetched again at its next read). \<^verbatim>\<open>invalidateQueries\<close> marks every entry
  whose key starts with the given key.
\<close>

record query_state =
  data :: "customer list option"
  isLoading :: bool
  isInvalidated :: bool

type_synonym query_cache = "string list \<rightharpoonup> query_state"

definition invalidateQueries :: "string list \<Rightarrow> query_cache \<Rightarrow> query_cache" where
  "invalidateQueries queryKey qc =
     (\<lambda>k. case qc k of
            None \<Rightarrow> None
          | Some q \<Rightarrow>
              if take (length queryKey) k = queryKey then Some (q\<lparr>isInvalidated := True\<rparr>)
              else Some q)"

text \<open>
  \<^verbatim>\<open>const { data: customers = [], isLoading } = useQuery(...)\<close>: the data, or the empty
  list while there is none; a key never read before starts its first fetch.
\<close>

definition useQuery :: "query_cache \<Rightarrow> string list \<Rightarrow> customer list \<times> bool" where
  "useQuery qc k =
     (case qc k of
        None \<Rightarrow> ([], True)
      | Some q \<Rightarrow> ((case data q of None \<Rightarrow> [] | Some xs \<Rightarrow> xs), isLoading q))"

text \<open>The library stores the list a fetch returned.\<close>

definition fetched :: "string list \<Rightarrow> customer list \<Rightarrow> query_cache \<Rightarrow> query_cache" where
  "fetched k xs qc = qc(k \<mapsto> \<lparr>data = Some xs, isLoading = False, isInvalidated = False\<rparr>)"

text \<open>
  The state of the page: its six \<^verbatim>\<open>useState\<close> cells, the query cache and the pending
  flag of the delete mutation.
\<close>

record page =
  search :: string
  showAddForm :: bool
  showEditForm :: bool
  editingCustomer :: "customer option"
  showHistory :: bool
  historyCustomer :: "customer option"
  queries :: query_cache
  isPending :: bool

definition queryKey :: "page \<Rightarrow> string list" where
  "queryKey p = [''/api/customers'', search p]"

definition customers :: "page \<Rightarrow> customer list" where
  "customers p = fst (useQuery (queries p) (queryKey p))"

subsection \<open>Errors, responses and effects\<close>

record js_error =
  message :: "string option"

record response =
  resp_ok :: bool
  resp_status :: int
  resp_text :: "js_error + string"

text \<open>\<^verbatim>\<open>await apiRequest(...)\<close> throws or returns a response.\<close>

datatype api_outcome = Rejects js_error | Resolves response

datatype toast_variant = Destructive

record toast_args =
  title :: ui_text
  description :: ui_text
  variant :: "toast_variant option"

datatype timer_action = SetLocationHref string

datatype effect =
    Confirm "piece list"
  | ApiRequest string string
  | ConsoleError string
  | Toast toast_args
  | SetTimeout timer_action nat

text \<open>\<^verbatim>\<open>String.prototype.includes\<close>: the pattern occurs somewhere in the string.\<close>

fun includesStr :: "string \<Rightarrow> string \<Rightarrow> bool" where
  "includesStr [] pat = (pat = [])"
| "includesStr (c # cs) pat = (take (length pat) (c # cs) = pat \<or> includesStr cs pat)"

text \<open>\<^verbatim>\<open>error.message?.includes(pat)\<close> is undefined, so falsy, without a message.\<close>

definition messageIncludes :: "js_error \<Rightarrow> string \<Rightarrow> bool" where
  "messageIncludes error pat = (case message error of None \<Rightarrow> False | Some m \<Rightarrow> includesStr m pat)"

subsection \<open>The delete mutation (lines 50 to 95)\<close>

definition mutationFn :: "api_outcome \<Rightarrow> js_error + bool" where
  "mutationFn outcome =
     (case outcome of
        Rejects e \<Rightarrow> Inl e
      | Resolves r \<Rightarrow>
          if \<not> resp_ok r then
            (case resp_text r of
               Inl e \<Rightarrow> Inl e
             | Inr errorText \<Rightarrow>
                 Inl \<lparr>message = Some (''Failed to delete customer: '' @ digits (resp_status r)
                                       @ '' - '' @ errorText)\<rparr>)
          else Inr True)"

definition onSuccess :: "query_cache \<Rightarrow> query_cache \<times> effect list" where
  "onSuccess qc =
     (invalidateQueries [''/api/customers''] qc,
      [Toast \<lparr>title = Deleted_title, description = Customer_deleted_successfully,
              variant = None\<rparr>])"

text \<open>
  \<^verbatim>\<open>isUnauthorizedError\<close> is imported from the authentication helpers and is a
  parameter here.
\<close>

definition onError :: "(js_error \<Rightarrow> bool) \<Rightarrow> js_error \<Rightarrow> effect list" where
  "onError isUnauthorizedError error =
     ConsoleError ''Delete customer error:'' #
     (if isUnauthorizedError error then
        [Toast \<lparr>title = Unauthorized_title, description = Logged_out_logging_in_again,
                variant = Some Destructive\<rparr>,
         SetTimeout (SetLocationHref ''/api/login'') 500]
      else
        (let errorMessage =
               (if messageIncludes error ''not found'' then Customer_not_found
                else if messageIncludes error ''Failed to delete customer''
                then Database_error_while_deleting
                else Failed_to_delete_customer)
         in [Toast \<lparr>title = Error_deleting_customer_title, description = errorMessage,
                    variant = Some Destructive\<rparr>]))"

text \<open>
  \<^verbatim>\<open>mutateAsync\<close> of the library: the mutation is pending from the call until the
  request settles; then the matching callback runs, the flag falls, and the promise
  resolves, or rejects with the error.
\<close>

definition mutateAsync_start :: "page \<Rightarrow> string \<Rightarrow> page \<times> effect list" where
  "mutateAsync_start p i =
     (p\<lparr>isPending := True\<rparr>, [ApiRequest ''DELETE'' (''/api/customers/'' @ i)])"

definition mutateAsync_settle ::
    "(js_error \<Rightarrow> bool) \<Rightarrow> page \<Rightarrow> api_outcome \<Rightarrow> (js_error + bool) \<times> page \<times> effect list" where
  "mutateAsync_settle isUnauthorizedError p outcome =
     (case mutationFn outcome of
        Inr v \<Rightarrow>
          (let (qc, es) = onSuccess (queries p)
           in (Inr v, p\<lparr>queries := qc, isPending := False\<rparr>, es))
      | Inl e \<Rightarrow> (Inl e, p\<lparr>isPending := False\<rparr>, onError isUnauthorizedError e))"

subsection \<open>\<^verbatim>\<open>handleDelete\<close> (lines 97 to 112)\<close>

definition customerName :: "customer list \<Rightarrow> string \<Rightarrow> piece" where
  "customerName cs i =
     (case find (\<lambda>c. customerId c = i) cs of
        None \<Rightarrow> Loc This_customer
      | Some c \<Rightarrow> if name c = [] then Loc This_customer else Str (name c))"

definition confirmText :: "piece \<Rightarrow> piece list" where
  "confirmText n =
     [Loc Are_you_sure_to_delete, n, Loc Question_mark_blank_line,
      Loc This_action_cannot_be_undone]"

text \<open>
  The handler up to its \<^verbatim>\<open>await\<close>: the blocking prompt, and the request if the user
  agreed (\<open>answer\<close> is what \<^verbatim>\<open>confirm\<close> returned).
\<close>

definition handleDelete_start :: "page \<Rightarrow> string \<Rightarrow> bool \<Rightarrow> page \<times> effect list" where
  "handleDelete_start p i answer =
     (let prompt = Confirm (confirmText (customerName (customers p) i))
      in if answer then (let (p', es) = mutateAsync_start p i in (p', prompt # es))
         else (p, [prompt]))"

text \<open>
  The handler after the \<^verbatim>\<open>await\<close>: a rejection is caught and logged. The first
  component is the error that leaves the handler, and there is none.
\<close>

definition handleDelete_settle ::
    "(js_error \<Rightarrow> bool) \<Rightarrow> page \<Rightarrow> api_outcome \<Rightarrow> js_error option \<times> page \<times> effect list" where
  "handleDelete_settle isUnauthorizedError p outcome =
     (case mutateAsync_settle isUnauthorizedError p outcome of
        (Inr v, p', es) \<Rightarrow> (None, p', es)
      | (Inl e, p', es) \<Rightarrow> (None, p', es @ [ConsoleError ''Delete failed:'']))"

text \<open>The whole handler, given the user's answer and the outcome of the request.\<close>

definition handleDelete ::
    "(js_error \<Rightarrow> bool) \<Rightarrow> page \<Rightarrow> string \<Rightarrow> bool \<Rightarrow> api_outcome
       \<Rightarrow> js_error option \<times> page \<times> effect list" where
  "handleDelete isUnauthorizedError p i answer outcome =
     (let (p1, es1) = handleDelete_start p i answer
      in if answer then
           (let (err, p2, es2) = handleDelete_settle isUnauthorizedError p1 outcome
            in (err, p2, es1 @ es2))
         else (None, p1, es1))"

definition handleEdit :: "page \<Rightarrow> customer \<Rightarrow> page" where
  "handleEdit p c = p\<lparr>editingCustomer := Some c, showEditForm := True\<rparr>"

definition handleShowHistory :: "page \<Rightarrow> customer \<Rightarrow> page" where
  "handleShowHistory p c = p\<lparr>historyCustomer := Some c, showHistory := True\<rparr>"

section \<open>The customers grid (lines 165 to 323)\<close>

datatype icon = Plus | Users | History | Edit | Trash2 | Spinner

datatype ui_action =
    SetShowAddForm bool
  | HandleShowHistory customer
  | HandleEdit customer
  | HandleDelete string

record button =
  label :: "ui_text option"
  icon :: icon
  onClick :: ui_action
  disabled :: bool

record card =
  card_key :: string
  card_title :: string
  badge :: "string \<times> ui_text"
  history_button :: button
  edit_button :: button
  delete_button :: button
  phone_row :: "string option"
  email_row :: "string option"
  address_row :: "string option"
  debt :: "debt_box option"
  joined :: string

datatype grid =
    Skeletons nat
  | EmptyState ui_text ui_text button
  | Cards "card list"

definition addButton :: button where
  "addButton = \<lparr>label = Some Add_new_customer, icon = Plus, onClick = SetShowAddForm True,
                 disabled = False\<rparr>"

text \<open>
  One card (lines 201 to 320). The date line passes \<^verbatim>\<open>customer.createdAt || ""\<close> to
  the date formatter of the locale, which is left out: \<open>joined\<close> is that argument.
\<close>

definition renderCard :: "bool \<Rightarrow> customer \<Rightarrow> card" where
  "renderCard pending c =
     \<lparr> card_key = customerId c,
       card_title = name c,
       badge = (if truthyB (isActive c) then (''default'', Active_badge)
                else (''secondary'', Inactive_badge)),
       history_button = \<lparr>label = None, icon = History, onClick = HandleShowHistory c,
                          disabled = False\<rparr>,
       edit_button = \<lparr>label = None, icon = Edit, onClick = HandleEdit c, disabled = False\<rparr>,
       delete_button = \<lparr>label = None, icon = (if pending then Spinner else Trash2),
                         onClick = HandleDelete (customerId c), disabled = pending\<rparr>,
       phone_row = (if truthy (phone c) then phone c else None),
       email_row = (if truthy (email c) then email c else None),
       address_row = (if truthy (address c) then address c else None),
       debt = debtIndicator c,
       joined = (case createdAt c of None \<Rightarrow> [] | Some d \<Rightarrow> d) \<rparr>"

text \<open>The grid (lines 165 to 323): loading, empty or populated.\<close>

definition customersGrid :: "page \<Rightarrow> grid" where
  "customersGrid p =
     (let (cs, loading) = useQuery (queries p) (queryKey p)
      in if loading then Skeletons 6
         else if length cs = 0 then
           EmptyState No_customers_heading
             (if search p \<noteq> [] then No_customers_match_search else Start_by_adding_customers)
             addButton
         else Cards (map (renderCard (isPending p)) cs))"

definition cardsOf :: "grid \<Rightarrow> card list" where
  "cardsOf g = (case g of Cards cs \<Rightarrow> cs | _ \<Rightarrow> [])"

section \<open>Vocabulary of the properties\<close>

text \<open>
  The number the page reads from a customer's debt: \<^verbatim>\<open>parseFloat(customer.totalDebt)\<close>,
  which is NaN for \<^verbatim>\<open>null\<close>.
\<close>

definition parsedDebt :: "customer \<Rightarrow> jsnum" where
  "parsedDebt c = (case totalDebt c of None \<Rightarrow> NaN | Some s \<Rightarrow> parseFloat s)"

text \<open>The red and the yellow styling of the three styled elements of a debt box.\<close>

definition redStyling :: "debt_box \<Rightarrow> bool" where
  "redStyling b =
     (box_class b = ''flex items-center gap-2 p-2 rounded-md bg-red-50 border border-red-200''
      \<and> icon_class b = ''h-4 w-4 text-red-500''
      \<and> amount_class b = ''text-red-700 font-semibold'')"

definition yellowStyling :: "debt_box \<Rightarrow> bool" where
  "yellowStyling b =
     (box_class b = ''flex items-center gap-2 p-2 rounded-md bg-yellow-50 border border-yellow-200''
      \<and> icon_class b = ''h-4 w-4 text-yellow-500''
      \<and> amount_class b = ''text-yellow-700'')"

text \<open>The amount a debt box prints: the third piece of its text.\<close>

definition shownAmount :: "debt_box \<Rightarrow> string" where
  "shownAmount b = (case amount_text b of [_, _, Str a, _, _] \<Rightarrow> a | _ \<Rightarrow> [])"

text \<open>The number of notifications among the effects of a handler.\<close>

definition toasts :: "effect list \<Rightarrow> toast_args list" where
  "toasts es = concat (map (\<lambda>e. case e of Toast t \<Rightarrow> [t] | _ \<Rightarrow> []) es)"

text \<open>
  Sample data: the three customers of the specification's scenario, and a page that has
  fetched a given list under an empty search.
\<close>

definition sampleCustomer :: "string \<Rightarrow> string \<Rightarrow> string option \<Rightarrow> customer" where
  "sampleCustomer i n d =
     \<lparr>customerId = i, name = n, phone = None, email = None, address = None,
      isActive = Some True, totalDebt = d, createdAt = None\<rparr>"

definition ali :: customer where
  "ali = sampleCustomer ''c1'' ''Ali'' (Some ''5200'')"

definition sara :: customer where
  "sara = sampleCustomer ''c2'' ''Sara'' (Some ''120'')"

definition omar :: customer where
  "omar = sampleCustomer ''c3'' ''Omar'' None"

definition samplePage :: "string \<Rightarrow> customer list \<Rightarrow> page" where
  "samplePage s cs =
     \<lparr>search = s, showAddForm = False, showEditForm = False, editingCustomer = None,
      showHistory = False, historyCustomer = None,
      queries = fetched [''/api/customers'', s] cs Map.empty, isPending = False\<rparr>"

text \<open>
  The page after the library has fetched its list query again and stored the list the
  store returned.
\<close>

definition refetched :: "page \<Rightarrow> customer list \<Rightarrow> page" where
  "refetched p xs = p\<lparr>queries := fetched (queryKey p) xs (queries p)\<rparr>"

section \<open>Properties\<close>

subsection \<open>Digits and \<^verbatim>\<open>toFixed(2)\<close>\<close>

lemma isDigit_digitChar: "0 \<le> d \<Longrightarrow> d < 10 \<Longrightarrow> isDigit (digitChar d)"
  by (simp add: isDigit_def digitChar_def)

lemma digits_nonempty: "digits n \<noteq> []"
  by (subst digits.simps) simp

lemma digits_all_digits: "0 \<le> n \<Longrightarrow> list_all isDigit (digits n)"
proof (induction n rule: digits.induct)
  case (1 n)
  show ?case
  proof (cases "n < 10")
    case True
    with "1.prems" show ?thesis
      by (subst digits.simps) (simp add: isDigit_digitChar)
  next
    case False
    then have "0 \<le> n div 10" by simp
    with False "1.IH" have "list_all isDigit (digits (n div 10))" by simp
    moreover have "isDigit (digitChar (n mod 10))"
      by (rule isDigit_digitChar) simp_all
    ultimately show ?thesis using False
      by (subst digits.simps) simp
  qed
qed

lemma twoDecimalPlaces_split:
  assumes "a \<noteq> []" "list_all isDigit a" "length b = 2" "list_all isDigit b"
  shows "twoDecimalPlaces (a @ ''.'' @ b)"
proof -
  have k: "length (a @ ''.'' @ b) = length a + 3" using assms by simp
  have "length a \<ge> 1" using assms(1) by (cases a) simp_all
  then show ?thesis
    unfolding twoDecimalPlaces_def Let_def k using assms
    by (simp add: nth_append)
qed

lemma toFixed_two_decimals:
  assumes "0 \<le> x" "x < 10 ^ 21"
  shows "twoDecimalPlaces (toFixed (Fin x) 2)"
proof -
  define n where "n = \<lfloor>x * 10 ^ 2 + 1 / 2\<rfloor>"
  define m where "m = digits n"
  define m' where "m' = (if length m \<le> 2 then replicate (3 - length m) (CHR ''0'') @ m else m)"
  have n0: "0 \<le> n" using assms(1) by (simp add: n_def)
  have dm: "list_all isDigit m" unfolding m_def by (rule digits_all_digits [OF n0])
  have z: "isDigit (CHR ''0'')" by (simp add: isDigit_def)
  have dm': "list_all isDigit m'" using dm z by (simp add: m'_def list_all_iff)
  have len: "3 \<le> length m'" by (simp add: m'_def)
  have tf: "toFixed (Fin x) 2 = take (length m' - 2) m' @ ''.'' @ drop (length m' - 2) m'"
    using assms by (simp add: toFixed_def Let_def n_def m_def m'_def abs_of_nonneg)
  have "twoDecimalPlaces (take (length m' - 2) m' @ ''.'' @ drop (length m' - 2) m')"
  proof (rule twoDecimalPlaces_split)
    show "take (length m' - 2) m' \<noteq> []" using len by (cases m') auto
    show "list_all isDigit (take (length m' - 2) m')"
      using dm' by (auto simp: list_all_iff dest: in_set_takeD)
    show "length (drop (length m' - 2) m') = 2" using len by simp
    show "list_all isDigit (drop (length m' - 2) m')"
      using dm' by (auto simp: list_all_iff dest: in_set_dropD)
  qed
  with tf show ?thesis by simp
qed

subsection \<open>The debt indicator\<close>

lemma parseFloat_Nil: "parseFloat [] = NaN"
  by (simp add: parseFloat_def)

lemma jsnum_ge_imp_gt: "jsnum_ge v (Fin 5000) \<Longrightarrow> jsnum_gt v (Fin 0)"
  by (cases v) auto

lemma debtIndicator_None_iff: "debtIndicator c = None \<longleftrightarrow> \<not> jsnum_gt (parsedDebt c) (Fin 0)"
  by (simp add: debtIndicator_def parsedDebt_def parseFloat_Nil split: option.splits)

lemma debtIndicator_Some:
  assumes "jsnum_gt (parsedDebt c) (Fin 0)"
  obtains s where "totalDebt c = Some s" "s \<noteq> []" "jsnum_gt (parseFloat s) (Fin 0)"
    "parsedDebt c = parseFloat s"
proof (cases "totalDebt c")
  case None
  with assms show ?thesis by (simp add: parsedDebt_def)
next
  case (Some s)
  with assms have p: "parsedDebt c = parseFloat s" "jsnum_gt (parseFloat s) (Fin 0)"
    by (simp_all add: parsedDebt_def)
  then have "s \<noteq> []" by (auto simp: parseFloat_Nil)
  with Some p that show ?thesis by blast
qed

lemma debtIndicator_critical:
  assumes "jsnum_ge (parsedDebt c) (Fin 5000)"
  shows "\<exists>b. debtIndicator c = Some b \<and> redStyling b
            \<and> overage_note b = Some (''text-xs text-red-600'', Limit_exceeded)
            \<and> shownAmount b = toFixed (parsedDebt c) 2"
proof -
  from assms have "jsnum_gt (parsedDebt c) (Fin 0)" by (rule jsnum_ge_imp_gt)
  then obtain s where s: "totalDebt c = Some s" "s \<noteq> []" "jsnum_gt (parseFloat s) (Fin 0)"
    "parsedDebt c = parseFloat s" by (rule debtIndicator_Some)
  with assms show ?thesis
    by (simp add: debtIndicator_def redStyling_def shownAmount_def)
qed

lemma debtIndicator_warning:
  assumes "jsnum_gt (parsedDebt c) (Fin 0)" "\<not> jsnum_ge (parsedDebt c) (Fin 5000)"
  shows "\<exists>b. debtIndicator c = Some b \<and> yellowStyling b \<and> overage_note b = None
            \<and> shownAmount b = toFixed (parsedDebt c) 2"
proof -
  from assms(1) obtain s where s: "totalDebt c = Some s" "s \<noteq> []" "jsnum_gt (parseFloat s) (Fin 0)"
    "parsedDebt c = parseFloat s" by (rule debtIndicator_Some)
  with assms show ?thesis
    by (simp add: debtIndicator_def yellowStyling_def shownAmount_def)
qed

lemma debtIndicator_styling:
  assumes "debtIndicator c = Some b"
  shows "(redStyling b \<longrightarrow> jsnum_ge (parsedDebt c) (Fin 5000))
       \<and> (yellowStyling b \<longrightarrow> \<not> jsnum_ge (parsedDebt c) (Fin 5000))
       \<and> jsnum_gt (parsedDebt c) (Fin 0)
       \<and> shownAmount b = toFixed (parsedDebt c) 2"
proof -
  from assms have gt: "jsnum_gt (parsedDebt c) (Fin 0)"
    using debtIndicator_None_iff [of c] by simp
  then obtain s where s: "totalDebt c = Some s" "s \<noteq> []" "jsnum_gt (parseFloat s) (Fin 0)"
    "parsedDebt c = parseFloat s" by (rule debtIndicator_Some)
  show ?thesis
  proof (cases "jsnum_ge (parsedDebt c) (Fin 5000)")
    case True
    with s assms have "amount_class b = ''text-red-700 font-semibold''"
      "shownAmount b = toFixed (parsedDebt c) 2"
      by (auto simp: debtIndicator_def shownAmount_def)
    with True gt show ?thesis by (simp add: yellowStyling_def)
  next
    case False
    with s assms have "amount_class b = ''text-yellow-700''"
      "shownAmount b = toFixed (parsedDebt c) 2"
      by (auto simp: debtIndicator_def shownAmount_def)
    with False gt show ?thesis by (simp add: redStyling_def)
  qed
qed

text \<open>
  Claim C1, as the code has it. For every customer of the populated list: the critical
  indicator (red styling, the overage notice, the amount printed by \<^verbatim>\<open>toFixed(2)\<close>) is
  rendered if and only if the parsed total debt is at least 5000; the warning indicator
  (yellow styling, no overage notice) if and only if the parsed total debt is above 0 and
  not at least 5000; no indicator at all if and only if the parsed total debt is not above
  0, which covers an absent, empty or unparsable total debt, zero and the negative
  amounts. The amount has exactly two decimal places whenever the parsed total debt is
  below \<open>10^21\<close>. The boundary 5000 is critical.
\<close>

theorem debt_indicator_classification:
  "((\<exists>b. debtIndicator c = Some b \<and> redStyling b
          \<and> overage_note b = Some (''text-xs text-red-600'', Limit_exceeded)
          \<and> shownAmount b = toFixed (parsedDebt c) 2)
      \<longleftrightarrow> jsnum_ge (parsedDebt c) (Fin 5000))
   \<and> ((\<exists>b. debtIndicator c = Some b \<and> yellowStyling b \<and> overage_note b = None
          \<and> shownAmount b = toFixed (parsedDebt c) 2)
      \<longleftrightarrow> jsnum_gt (parsedDebt c) (Fin 0) \<and> \<not> jsnum_ge (parsedDebt c) (Fin 5000))
   \<and> (debtIndicator c = None \<longleftrightarrow> \<not> jsnum_gt (parsedDebt c) (Fin 0))
   \<and> (totalDebt c = None \<or> totalDebt c = Some [] \<or> parsedDebt c = NaN
         \<or> (\<exists>x. parsedDebt c = Fin x \<and> x \<le> 0) \<longrightarrow> debtIndicator c = None)
   \<and> (\<forall>b x. debtIndicator c = Some b \<and> parsedDebt c = Fin x \<and> x < 10 ^ 21
         \<longrightarrow> twoDecimalPlaces (shownAmount b))
   \<and> (parsedDebt c = Fin 5000 \<longrightarrow> (\<exists>b. debtIndicator c = Some b \<and> redStyling b))"
proof (intro conjI)
  show "(\<exists>b. debtIndicator c = Some b \<and> redStyling b
          \<and> overage_note b = Some (''text-xs text-red-600'', Limit_exceeded)
          \<and> shownAmount b = toFixed (parsedDebt c) 2)
      \<longleftrightarrow> jsnum_ge (parsedDebt c) (Fin 5000)"
    using debtIndicator_critical [of c] debtIndicator_styling [of c] by blast
  show "(\<exists>b. debtIndicator c = Some b \<and> yellowStyling b \<and> overage_note b = None
          \<and> shownAmount b = toFixed (parsedDebt c) 2)
      \<longleftrightarrow> jsnum_gt (parsedDebt c) (Fin 0) \<and> \<not> jsnum_ge (parsedDebt c) (Fin 5000)"
    using debtIndicator_warning [of c] debtIndicator_styling [of c] by blast
  show "debtIndicator c = None \<longleftrightarrow> \<not> jsnum_gt (parsedDebt c) (Fin 0)"
    by (rule debtIndicator_None_iff)
  show "totalDebt c = None \<or> totalDebt c = Some [] \<or> parsedDebt c = NaN
         \<or> (\<exists>x. parsedDebt c = Fin x \<and> x \<le> 0) \<longrightarrow> debtIndicator c = None"
    unfolding debtIndicator_None_iff by (auto simp: parsedDebt_def parseFloat_Nil)
  show "\<forall>b x. debtIndicator c = Some b \<and> parsedDebt c = Fin x \<and> x < 10 ^ 21
         \<longrightarrow> twoDecimalPlaces (shownAmount b)"
  proof (intro allI impI)
    fix b x
    assume a: "debtIndicator c = Some b \<and> parsedDebt c = Fin x \<and> x < 10 ^ 21"
    then have "jsnum_gt (Fin x) (Fin 0)" "shownAmount b = toFixed (Fin x) 2"
      using debtIndicator_styling [of c b] by simp_all
    with a show "twoDecimalPlaces (shownAmount b)"
      using toFixed_two_decimals [of x] by simp
  qed
  show "parsedDebt c = Fin 5000 \<longrightarrow> (\<exists>b. debtIndicator c = Some b \<and> redStyling b)"
    using debtIndicator_critical [of c] by auto
qed

text \<open>The customer of the scenario with the debt \<open>''5200''\<close>: critical, printed \<open>''5200.00''\<close>.\<close>

lemma parsedDebt_ali: "parsedDebt ali = Fin 5200"
  by code_simp

theorem debt_indicator_classification_witness:
  "jsnum_ge (parsedDebt ali) (Fin 5000)
   \<and> (\<exists>b. debtIndicator ali = Some b \<and> redStyling b
          \<and> overage_note b = Some (''text-xs text-red-600'', Limit_exceeded)
          \<and> shownAmount b = ''5200.00'' \<and> twoDecimalPlaces (shownAmount b))"
proof -
  have ge: "jsnum_ge (parsedDebt ali) (Fin 5000)" by (simp add: parsedDebt_ali)
  have tf: "toFixed (parsedDebt ali) 2 = ''5200.00''" by code_simp
  from ge debt_indicator_classification [of ali]
  obtain b where b: "debtIndicator ali = Some b" "redStyling b"
    "overage_note b = Some (''text-xs text-red-600'', Limit_exceeded)"
    "shownAmount b = toFixed (parsedDebt ali) 2" by blast
  moreover have "twoDecimalPlaces (shownAmount b)"
  proof -
    have "\<forall>b x. debtIndicator ali = Some b \<and> parsedDebt ali = Fin x \<and> x < 10 ^ 21
            \<longrightarrow> twoDecimalPlaces (shownAmount b)"
      using debt_indicator_classification [of ali] by blast
    moreover have "debtIndicator ali = Some b \<and> parsedDebt ali = Fin 5200 \<and> (5200::rat) < 10 ^ 21"
      using b(1) parsedDebt_ali by simp
    ultimately show ?thesis by blast
  qed
  ultimately show ?thesis using ge tf by auto
qed

text \<open>
  Claim C1 as written asks for exactly two decimal places on every critical indicator.
  A total debt of \<open>''Infinity''\<close> parses to a number above 5000 and the indicator is red,
  but \<^verbatim>\<open>toFixed(2)\<close> prints it as \<open>''Infinity''\<close>.
\<close>

theorem debt_indicator_two_decimals_counterexample:
  "jsnum_ge (parsedDebt (sampleCustomer ''c4'' ''Lina'' (Some ''Infinity''))) (Fin 5000)
   \<and> map_option redStyling (debtIndicator (sampleCustomer ''c4'' ''Lina'' (Some ''Infinity'')))
       = Some True
   \<and> map_option overage_note (debtIndicator (sampleCustomer ''c4'' ''Lina'' (Some ''Infinity'')))
       = Some (Some (''text-xs text-red-600'', Limit_exceeded))
   \<and> map_option shownAmount (debtIndicator (sampleCustomer ''c4'' ''Lina'' (Some ''Infinity'')))
       = Some ''Infinity''
   \<and> \<not> twoDecimalPlaces ''Infinity''"
  by code_simp

subsection \<open>\<^verbatim>\<open>getDebtStatusColor\<close>\<close>

text \<open>
  Claim C9. \<^verbatim>\<open>getDebtStatusColor\<close> returns the red styling exactly when the parsed debt
  is at least 5000 and the yellow styling in every other case, so for an absent, empty,
  unparsable, zero or negative debt; it has no third outcome.
\<close>

theorem getDebtStatusColor_classification:
  "(getDebtStatusColor d = ''border-red-500 text-red-500''
      \<longleftrightarrow> jsnum_ge (debtNumber d) (Fin 5000))
   \<and> (getDebtStatusColor d = ''border-yellow-500 text-yellow-500''
      \<longleftrightarrow> \<not> jsnum_ge (debtNumber d) (Fin 5000))
   \<and> (d = Undefined \<or> d = StrArg [] \<or> debtNumber d = NaN
        \<or> (\<exists>x. debtNumber d = Fin x \<and> x \<le> 0)
      \<longrightarrow> getDebtStatusColor d = ''border-yellow-500 text-yellow-500'')"
  by (cases d) (auto simp: getDebtStatusColor_def falsy_def debtNumber_def parseFloat_Nil)

theorem getDebtStatusColor_classification_witness:
  "debtNumber (StrArg ''-3'') = Fin (- 3)
   \<and> getDebtStatusColor (StrArg ''-3'') = ''border-yellow-500 text-yellow-500''
   \<and> getDebtStatusColor Undefined = ''border-yellow-500 text-yellow-500''
   \<and> getDebtStatusColor (StrArg ''abc'') = ''border-yellow-500 text-yellow-500''
   \<and> getDebtStatusColor (NumArg (Fin 5000)) = ''border-red-500 text-red-500''"
proof -
  have n: "debtNumber (StrArg ''-3'') = Fin (- 3)" by code_simp
  have a: "debtNumber (StrArg ''abc'') = NaN" by code_simp
  have f: "debtNumber (NumArg (Fin 5000)) = Fin 5000" by (simp add: debtNumber_def)
  show ?thesis
    using getDebtStatusColor_classification [of "StrArg ''-3''"]
      getDebtStatusColor_classification [of Undefined]
      getDebtStatusColor_classification [of "StrArg ''abc''"]
      getDebtStatusColor_classification [of "NumArg (Fin 5000)"] n a f
    by simp
qed

subsection \<open>The delete workflow\<close>

text \<open>Reading the cache, the grid, and the handler unfolded for either answer.\<close>

lemma useQuery_fetched: "useQuery (fetched k xs qc) k = (xs, False)"
  by (simp add: useQuery_def fetched_def)

lemma customersGrid_loaded:
  assumes "useQuery (queries p) (queryKey p) = (cs, False)"
  shows "customersGrid p =
     (if cs = [] then
        EmptyState No_customers_heading
          (if search p \<noteq> [] then No_customers_match_search else Start_by_adding_customers)
          addButton
      else Cards (map (renderCard (isPending p)) cs))"
  using assms by (simp add: customersGrid_def)

lemma card_key_renderCard: "card_key (renderCard b c) = customerId c"
  by (simp add: renderCard_def)

lemma delete_button_renderCard:
  "delete_button (renderCard b c) =
     \<lparr>label = None, icon = (if b then Spinner else Trash2), onClick = HandleDelete (customerId c),
      disabled = b\<rparr>"
  by (simp add: renderCard_def)

lemma cardsOf_customersGrid:
  "cardsOf (customersGrid p) =
     (if snd (useQuery (queries p) (queryKey p)) then []
      else map (renderCard (isPending p)) (customers p))"
  by (cases "useQuery (queries p) (queryKey p)")
     (auto simp: customersGrid_def cardsOf_def customers_def)

lemma keys_customersGrid_refetched:
  "map card_key (cardsOf (customersGrid (refetched p xs))) = map customerId xs"
proof -
  have k: "queryKey (refetched p xs) = queryKey p" by (simp add: refetched_def queryKey_def)
  have "useQuery (queries (refetched p xs)) (queryKey (refetched p xs)) = (xs, False)"
    unfolding k by (simp add: refetched_def useQuery_fetched)
  then show ?thesis
    by (simp add: cardsOf_customersGrid customers_def card_key_renderCard comp_def)
qed

lemma toasts_simps:
  "toasts [] = []"
  "toasts (Toast t # es) = t # toasts es"
  "toasts (Confirm x # es) = toasts es"
  "toasts (ApiRequest m u # es) = toasts es"
  "toasts (ConsoleError l # es) = toasts es"
  "toasts (SetTimeout a n # es) = toasts es"
  "toasts (es @ es') = toasts es @ toasts es'"
  by (simp_all add: toasts_def)

lemma toasts_onError: "length (toasts (onError isU e)) = 1"
  by (simp add: onError_def toasts_simps Let_def)

lemma mutationFn_Inr: "mutationFn outcome = Inr v \<longleftrightarrow> v \<and> (\<exists>r. outcome = Resolves r \<and> resp_ok r)"
  by (cases outcome) (auto simp: mutationFn_def split: sum.splits)

lemma handleDelete_confirmed:
  "handleDelete isU p i True outcome =
     (case mutationFn outcome of
        Inr v \<Rightarrow>
          (None, p\<lparr>queries := invalidateQueries [''/api/customers''] (queries p), isPending := False\<rparr>,
           [Confirm (confirmText (customerName (customers p) i)),
            ApiRequest ''DELETE'' (''/api/customers/'' @ i),
            Toast \<lparr>title = Deleted_title, description = Customer_deleted_successfully,
                   variant = None\<rparr>])
      | Inl e \<Rightarrow>
          (None, p\<lparr>isPending := False\<rparr>,
           [Confirm (confirmText (customerName (customers p) i)),
            ApiRequest ''DELETE'' (''/api/customers/'' @ i)]
           @ onError isU e @ [ConsoleError ''Delete failed:'']))"
  by (simp add: handleDelete_def handleDelete_start_def handleDelete_settle_def
      mutateAsync_start_def mutateAsync_settle_def onSuccess_def Let_def split: sum.splits)

lemma handleDelete_cancelled:
  "handleDelete isU p i False outcome =
     (None, p, [Confirm (confirmText (customerName (customers p) i))])"
  by (simp add: handleDelete_def handleDelete_start_def Let_def)

text \<open>
  Claim C2. Every error that reaches \<^verbatim>\<open>onError\<close> falls in exactly one of three cases,
  tried in this order. An error recognised as unauthorized: the unauthorized
  notification, then the redirect to \<open>/api/login\<close> after 500 ms. Otherwise a message
  containing \<open>not found\<close>: the customer-not-found message. Otherwise the deletion-failed
  notification, whose text is the database hint exactly when the message contains
  \<open>Failed to delete customer\<close>, and the generic failure message if not.
\<close>

theorem onError_classification:
  "(isU e \<longrightarrow> onError isU e =
      [ConsoleError ''Delete customer error:'',
       Toast \<lparr>title = Unauthorized_title, description = Logged_out_logging_in_again,
              variant = Some Destructive\<rparr>,
       SetTimeout (SetLocationHref ''/api/login'') 500])
   \<and> (\<not> isU e \<and> messageIncludes e ''not found'' \<longrightarrow> onError isU e =
      [ConsoleError ''Delete customer error:'',
       Toast \<lparr>title = Error_deleting_customer_title, description = Customer_not_found,
              variant = Some Destructive\<rparr>])
   \<and> (\<not> isU e \<and> \<not> messageIncludes e ''not found'' \<longrightarrow> onError isU e =
      [ConsoleError ''Delete customer error:'',
       Toast \<lparr>title = Error_deleting_customer_title,
              description = (if messageIncludes e ''Failed to delete customer''
                             then Database_error_while_deleting else Failed_to_delete_customer),
              variant = Some Destructive\<rparr>])"
  by (simp add: onError_def)

text \<open>
  One error for each branch; the third is the error \<^verbatim>\<open>mutationFn\<close> builds from a
  response with status 500.
\<close>

theorem onError_classification_witness:
  "onError (\<lambda>e. message e = Some ''401: Unauthorized'') \<lparr>message = Some ''401: Unauthorized''\<rparr> =
     [ConsoleError ''Delete customer error:'',
      Toast \<lparr>title = Unauthorized_title, description = Logged_out_logging_in_again,
             variant = Some Destructive\<rparr>,
      SetTimeout (SetLocationHref ''/api/login'') 500]
   \<and> messageIncludes \<lparr>message = Some ''404: Customer not found''\<rparr> ''not found''
   \<and> toasts (onError (\<lambda>e. message e = Some ''401: Unauthorized'')
         \<lparr>message = Some ''404: Customer not found''\<rparr>) =
     [\<lparr>title = Error_deleting_customer_title, description = Customer_not_found,
       variant = Some Destructive\<rparr>]
   \<and> mutationFn (Resolves \<lparr>resp_ok = False, resp_status = 500, resp_text = Inr ''boom''\<rparr>) =
     Inl \<lparr>message = Some ''Failed to delete customer: 500 - boom''\<rparr>
   \<and> toasts (onError (\<lambda>e. message e = Some ''401: Unauthorized'')
         \<lparr>message = Some ''Failed to delete customer: 500 - boom''\<rparr>) =
     [\<lparr>title = Error_deleting_customer_title, description = Database_error_while_deleting,
       variant = Some Destructive\<rparr>]
   \<and> toasts (onError (\<lambda>e. message e = Some ''401: Unauthorized'')
         \<lparr>message = Some ''Network down''\<rparr>) =
     [\<lparr>title = Error_deleting_customer_title, description = Failed_to_delete_customer,
       variant = Some Destructive\<rparr>]"
proof -
  let ?isU = "\<lambda>e. message e = Some ''401: Unauthorized''"
  have nf: "messageIncludes \<lparr>message = Some ''404: Customer not found''\<rparr> ''not found''"
    by code_simp
  have db: "\<not> messageIncludes \<lparr>message = Some ''Failed to delete customer: 500 - boom''\<rparr> ''not found''"
    "messageIncludes \<lparr>message = Some ''Failed to delete customer: 500 - boom''\<rparr>
       ''Failed to delete customer''"
    by code_simp+
  have nd: "\<not> messageIncludes \<lparr>message = Some ''Network down''\<rparr> ''not found''"
    "\<not> messageIncludes \<lparr>message = Some ''Network down''\<rparr> ''Failed to delete customer''"
    by code_simp+
  have mf: "mutationFn (Resolves \<lparr>resp_ok = False, resp_status = 500, resp_text = Inr ''boom''\<rparr>) =
     Inl \<lparr>message = Some ''Failed to delete customer: 500 - boom''\<rparr>"
    by code_simp
  show ?thesis
    using onError_classification [of ?isU "\<lparr>message = Some ''401: Unauthorized''\<rparr>"]
      onError_classification [of ?isU "\<lparr>message = Some ''404: Customer not found''\<rparr>"]
      onError_classification [of ?isU "\<lparr>message = Some ''Failed to delete customer: 500 - boom''\<rparr>"]
      onError_classification [of ?isU "\<lparr>message = Some ''Network down''\<rparr>"]
      nf db nd mf
    by (simp add: toasts_simps)
qed

text \<open>
  Claim C3. After a delete request that was answered with a success status, every
  cached list query under \<open>/api/customers\<close>, the page's own among them, is invalidated;
  the only notification is the success toast, shown once; and once the list is fetched
  again the cards are exactly the records the store returned, so a deleted record the
  store no longer returns has no card.
\<close>

theorem delete_success:
  assumes "outcome = Resolves r" "resp_ok r"
  shows "\<exists>p'. handleDelete isU p i True outcome =
           (None, p',
            [Confirm (confirmText (customerName (customers p) i)),
             ApiRequest ''DELETE'' (''/api/customers/'' @ i),
             Toast \<lparr>title = Deleted_title, description = Customer_deleted_successfully,
                    variant = None\<rparr>])
         \<and> p' = p\<lparr>queries := invalidateQueries [''/api/customers''] (queries p), isPending := False\<rparr>
         \<and> (\<forall>q. queries p (queryKey p) = Some q
               \<longrightarrow> queries p' (queryKey p') = Some (q\<lparr>isInvalidated := True\<rparr>))
         \<and> (\<forall>k q. queries p k = Some q \<and> take 1 k = [''/api/customers'']
               \<longrightarrow> queries p' k = Some (q\<lparr>isInvalidated := True\<rparr>))
         \<and> (\<forall>xs. map card_key (cardsOf (customersGrid (refetched p' xs))) = map customerId xs)
         \<and> (\<forall>xs. i \<notin> set (map customerId xs)
               \<longrightarrow> i \<notin> set (map card_key (cardsOf (customersGrid (refetched p' xs)))))"
proof -
  from assms have "mutationFn outcome = Inr True" by (simp add: mutationFn_Inr)
  then show ?thesis
    by (simp add: handleDelete_confirmed keys_customersGrid_refetched invalidateQueries_def
        queryKey_def)
qed

lemma customers_samplePage: "customers (samplePage s cs) = cs"
  by (simp add: customers_def samplePage_def queryKey_def useQuery_fetched)

lemma useQuery_samplePage:
  "useQuery (queries (samplePage s cs)) (queryKey (samplePage s cs)) = (cs, False)"
  by (simp add: samplePage_def queryKey_def useQuery_fetched)

theorem delete_success_witness:
  "(\<exists>p'. handleDelete (\<lambda>e. False) (samplePage [] [ali, sara]) ''c1'' True
            (Resolves \<lparr>resp_ok = True, resp_status = 200, resp_text = Inr []\<rparr>) =
           (None, p',
            [Confirm (confirmText (Str ''Ali'')),
             ApiRequest ''DELETE'' ''/api/customers/c1'',
             Toast \<lparr>title = Deleted_title, description = Customer_deleted_successfully,
                    variant = None\<rparr>])
         \<and> queries p' [''/api/customers'', []] =
             Some \<lparr>data = Some [ali, sara], isLoading = False, isInvalidated = True\<rparr>
         \<and> map card_key (cardsOf (customersGrid (refetched p' [sara]))) = [''c2''])"
proof -
  let ?p = "samplePage [] [ali, sara]"
  let ?r = "\<lparr>resp_ok = True, resp_status = 200, resp_text = Inr []\<rparr>"
  have n: "customerName (customers ?p) ''c1'' = Str ''Ali''"
    unfolding customers_samplePage by code_simp
  have q: "queries ?p (queryKey ?p) =
      Some \<lparr>data = Some [ali, sara], isLoading = False, isInvalidated = False\<rparr>"
    by (simp add: samplePage_def queryKey_def fetched_def)
  have k: "queryKey ?p = [''/api/customers'', []]" by (simp add: samplePage_def queryKey_def)
  have s: "map customerId [sara] = [''c2'']" by (simp add: sara_def sampleCustomer_def)
  from delete_success [of "Resolves ?r" ?r "\<lambda>e. False" ?p "''c1''"]
  obtain p' where p': "handleDelete (\<lambda>e. False) ?p ''c1'' True (Resolves ?r) =
           (None, p',
            [Confirm (confirmText (customerName (customers ?p) ''c1'')),
             ApiRequest ''DELETE'' (''/api/customers/'' @ ''c1''),
             Toast \<lparr>title = Deleted_title, description = Customer_deleted_successfully,
                    variant = None\<rparr>])"
      "p' = ?p\<lparr>queries := invalidateQueries [''/api/customers''] (queries ?p), isPending := False\<rparr>"
      "\<forall>q. queries ?p (queryKey ?p) = Some q
               \<longrightarrow> queries p' (queryKey p') = Some (q\<lparr>isInvalidated := True\<rparr>)"
      "\<forall>xs. map card_key (cardsOf (customersGrid (refetched p' xs))) = map customerId xs"
    by auto
  have kp: "queryKey p' = [''/api/customers'', []]"
    using p'(2) by (simp add: queryKey_def samplePage_def)
  from p'(3) q have "queries p' (queryKey p') =
      Some \<lparr>data = Some [ali, sara], isLoading = False, isInvalidated = True\<rparr>" by simp
  with p'(1) p'(4) n s kp show ?thesis by auto
qed

text \<open>
  Claim C4. A confirmed delete, whatever the outcome of the request, ends with no error
  leaving the handler, the pending flag down and exactly one notification. When the
  request failed, in whatever way, the page is the one from before the click with the
  pending flag down: the cache is untouched, so nothing is invalidated and the same cards
  stay in the list.
\<close>

theorem delete_failure_returns_to_idle:
  "(\<exists>err p' es. handleDelete isU p i True outcome = (err, p', es) \<and> err = None
       \<and> \<not> isPending p' \<and> length (toasts es) = 1)
   \<and> (\<forall>e. mutationFn outcome = Inl e \<longrightarrow>
         (\<exists>es. handleDelete isU p i True outcome = (None, p\<lparr>isPending := False\<rparr>, es)
            \<and> es = [Confirm (confirmText (customerName (customers p) i)),
                     ApiRequest ''DELETE'' (''/api/customers/'' @ i)]
                    @ onError isU e @ [ConsoleError ''Delete failed:'']
            \<and> length (toasts es) = 1
            \<and> queries (p\<lparr>isPending := False\<rparr>) = queries p
            \<and> customers (p\<lparr>isPending := False\<rparr>) = customers p
            \<and> map card_key (cardsOf (customersGrid (p\<lparr>isPending := False\<rparr>)))
                = map card_key (cardsOf (customersGrid p))))"
proof (intro conjI allI impI)
  show "\<exists>err p' es. handleDelete isU p i True outcome = (err, p', es) \<and> err = None
       \<and> \<not> isPending p' \<and> length (toasts es) = 1"
    by (cases "mutationFn outcome")
       (simp_all add: handleDelete_confirmed toasts_simps toasts_onError)
next
  fix e assume "mutationFn outcome = Inl e"
  then show "\<exists>es. handleDelete isU p i True outcome = (None, p\<lparr>isPending := False\<rparr>, es)
            \<and> es = [Confirm (confirmText (customerName (customers p) i)),
                     ApiRequest ''DELETE'' (''/api/customers/'' @ i)]
                    @ onError isU e @ [ConsoleError ''Delete failed:'']
            \<and> length (toasts es) = 1
            \<and> queries (p\<lparr>isPending := False\<rparr>) = queries p
            \<and> customers (p\<lparr>isPending := False\<rparr>) = customers p
            \<and> map card_key (cardsOf (customersGrid (p\<lparr>isPending := False\<rparr>)))
                = map card_key (cardsOf (customersGrid p))"
    by (simp add: handleDelete_confirmed toasts_simps toasts_onError customers_def queryKey_def
        cardsOf_customersGrid card_key_renderCard comp_def)
qed

theorem delete_failure_returns_to_idle_witness:
  "mutationFn (Resolves \<lparr>resp_ok = False, resp_status = 404, resp_text = Inr ''Customer not found''\<rparr>)
     = Inl \<lparr>message = Some ''Failed to delete customer: 404 - Customer not found''\<rparr>
   \<and> (\<exists>es. handleDelete (\<lambda>e. False) (samplePage [] [ali, sara]) ''c1'' True
         (Resolves \<lparr>resp_ok = False, resp_status = 404, resp_text = Inr ''Customer not found''\<rparr>)
         = (None, (samplePage [] [ali, sara])\<lparr>isPending := False\<rparr>, es)
       \<and> length (toasts es) = 1)
   \<and> map card_key (cardsOf (customersGrid ((samplePage [] [ali, sara])\<lparr>isPending := False\<rparr>)))
       = [''c1'', ''c2'']"
proof -
  let ?p = "samplePage [] [ali, sara]"
  let ?out = "Resolves \<lparr>resp_ok = False, resp_status = 404, resp_text = Inr ''Customer not found''\<rparr>"
  let ?e = "\<lparr>message = Some ''Failed to delete customer: 404 - Customer not found''\<rparr>"
  have mf: "mutationFn ?out = Inl ?e" by code_simp
  have keys: "map card_key (cardsOf (customersGrid ?p)) = [''c1'', ''c2'']"
    by (simp add: cardsOf_customersGrid useQuery_samplePage customers_samplePage
        card_key_renderCard ali_def sara_def sampleCustomer_def)
  from delete_failure_returns_to_idle [of "\<lambda>e. False" ?p "''c1''" ?out] mf keys
  show ?thesis by auto
qed

subsection \<open>The grid\<close>

text \<open>
  Claim C5. When the query has finished loading and holds no record, the grid is the
  empty state: with a non-empty search term its message is the no-match message, with an
  empty search term it is the invitation to add customers, next to the button that opens
  the form for a new customer.
\<close>

theorem empty_state_message:
  assumes "useQuery (queries p) (queryKey p) = ([], False)"
  shows "(search p \<noteq> [] \<longrightarrow>
           customersGrid p = EmptyState No_customers_heading No_customers_match_search addButton)
       \<and> (search p = [] \<longrightarrow>
           customersGrid p = EmptyState No_customers_heading Start_by_adding_customers addButton
           \<and> label addButton = Some Add_new_customer \<and> onClick addButton = SetShowAddForm True
           \<and> \<not> disabled addButton)"
  using assms by (simp add: customersGrid_loaded addButton_def)

theorem empty_state_message_witness:
  "useQuery (queries (samplePage ''zz'' [])) (queryKey (samplePage ''zz'' [])) = ([], False)
   \<and> search (samplePage ''zz'' []) \<noteq> []
   \<and> customersGrid (samplePage ''zz'' [])
       = EmptyState No_customers_heading No_customers_match_search addButton
   \<and> useQuery (queries (samplePage [] [])) (queryKey (samplePage [] [])) = ([], False)
   \<and> search (samplePage [] []) = []
   \<and> customersGrid (samplePage [] [])
       = EmptyState No_customers_heading Start_by_adding_customers addButton"
proof -
  have s: "search (samplePage ''zz'' []) \<noteq> []" "search (samplePage [] []) = []"
    by (simp_all add: samplePage_def)
  show ?thesis
    using empty_state_message [OF useQuery_samplePage [of "''zz''" "[]"]]
      empty_state_message [OF useQuery_samplePage [of "[]" "[]"]] s
    by (simp add: useQuery_samplePage)
qed

text \<open>
  Claim C10. The empty state holds the add-customer button whatever the search term is;
  only the message depends on the search term.
\<close>

theorem empty_state_always_has_create_action:
  assumes "useQuery (queries p) (queryKey p) = ([], False)"
  shows "\<exists>m. customersGrid p = EmptyState No_customers_heading m addButton
           \<and> m = (if search p \<noteq> [] then No_customers_match_search else Start_by_adding_customers)
           \<and> label addButton = Some Add_new_customer \<and> icon addButton = Plus
           \<and> onClick addButton = SetShowAddForm True \<and> \<not> disabled addButton"
  using assms by (simp add: customersGrid_loaded addButton_def)

theorem empty_state_always_has_create_action_witness:
  "useQuery (queries (samplePage ''zz'' [])) (queryKey (samplePage ''zz'' [])) = ([], False)
   \<and> (\<exists>m. customersGrid (samplePage ''zz'' []) = EmptyState No_customers_heading m addButton)
   \<and> onClick addButton = SetShowAddForm True"
  using empty_state_always_has_create_action [OF useQuery_samplePage [of "''zz''" "[]"]]
  by (auto simp: useQuery_samplePage)

subsection \<open>The confirmation prompt\<close>

lemma find_distinct_id:
  "c \<in> set cs \<Longrightarrow> distinct (map customerId cs) \<Longrightarrow> find (\<lambda>x. customerId x = customerId c) cs = Some c"
  by (induction cs) (auto simp: image_iff)

lemma find_absent_id:
  "i \<notin> customerId ` set cs \<Longrightarrow> find (\<lambda>x. customerId x = i) cs = None"
  by (induction cs) auto

text \<open>
  Claim C6. The first effect of \<^verbatim>\<open>handleDelete\<close> is the confirmation prompt, made of
  the question, the name, and the sentence that the action cannot be undone. The name is
  that of the record with the given id (ids are unique in the list), or the generic noun
  when that name is empty or no record has the id. When the user cancels there is no
  other effect, so no request, and the page, cache included, is unchanged.
\<close>

theorem handleDelete_confirms_first:
  "(\<exists>err p' es. handleDelete isU p i answer outcome =
        (err, p', Confirm (confirmText (customerName (customers p) i)) # es)
      \<and> (\<not> answer \<longrightarrow> err = None \<and> p' = p \<and> es = []))
   \<and> confirmText (customerName (customers p) i) =
        [Loc Are_you_sure_to_delete, customerName (customers p) i, Loc Question_mark_blank_line,
         Loc This_action_cannot_be_undone]
   \<and> (\<forall>c. c \<in> set (customers p) \<and> distinct (map customerId (customers p)) \<and> i = customerId c
         \<longrightarrow> customerName (customers p) i = (if name c = [] then Loc This_customer else Str (name c)))
   \<and> (i \<notin> customerId ` set (customers p) \<longrightarrow> customerName (customers p) i = Loc This_customer)"
proof (intro conjI)
  show "\<exists>err p' es. handleDelete isU p i answer outcome =
        (err, p', Confirm (confirmText (customerName (customers p) i)) # es)
      \<and> (\<not> answer \<longrightarrow> err = None \<and> p' = p \<and> es = [])"
    by (cases answer; cases "mutationFn outcome")
       (simp_all add: handleDelete_confirmed handleDelete_cancelled)
  show "confirmText (customerName (customers p) i) =
        [Loc Are_you_sure_to_delete, customerName (customers p) i, Loc Question_mark_blank_line,
         Loc This_action_cannot_be_undone]"
    by (simp add: confirmText_def)
  show "\<forall>c. c \<in> set (customers p) \<and> distinct (map customerId (customers p)) \<and> i = customerId c
         \<longrightarrow> customerName (customers p) i = (if name c = [] then Loc This_customer else Str (name c))"
    by (auto simp: customerName_def find_distinct_id)
  show "i \<notin> customerId ` set (customers p) \<longrightarrow> customerName (customers p) i = Loc This_customer"
    by (simp add: customerName_def find_absent_id)
qed
theorem handleDelete_confirms_first_witness:
  "ali \<in> set (customers (samplePage [] [ali, sara]))
   \<and> distinct (map customerId (customers (samplePage [] [ali, sara])))
   \<and> handleDelete (\<lambda>e. False) (samplePage [] [ali, sara]) ''c1'' False
        (Rejects \<lparr>message = None\<rparr>)
      = (None, samplePage [] [ali, sara],
         [Confirm [Loc Are_you_sure_to_delete, Str ''Ali'', Loc Question_mark_blank_line,
                   Loc This_action_cannot_be_undone]])
   \<and> customerName (customers (samplePage [] [ali, sara])) ''c9'' = Loc This_customer"
proof -
  let ?p = "samplePage [] [ali, sara]"
  have m: "ali \<in> set (customers ?p)" by (simp add: customers_samplePage)
  have d: "distinct (map customerId (customers ?p))"
    by (simp add: customers_samplePage ali_def sara_def sampleCustomer_def)
  have i: "''c1'' = customerId ali" "name ali = ''Ali''" by (simp_all add: ali_def sampleCustomer_def)
  have a: "''c9'' \<notin> customerId ` set (customers ?p)"
    by (simp add: customers_samplePage ali_def sara_def sampleCustomer_def)
  have n: "customerName (customers ?p) ''c1'' = Str ''Ali''"
    using handleDelete_confirms_first [of "\<lambda>e. False" ?p "''c1''" False "Rejects \<lparr>message = None\<rparr>"]
      m d i by auto
  have g: "customerName (customers ?p) ''c9'' = Loc This_customer"
    using handleDelete_confirms_first [of "\<lambda>e. False" ?p "''c9''" False "Rejects \<lparr>message = None\<rparr>"]
      a by blast
  have "handleDelete (\<lambda>e. False) ?p ''c1'' False (Rejects \<lparr>message = None\<rparr>)
      = (None, ?p, [Confirm (confirmText (customerName (customers ?p) ''c1''))])"
    using handleDelete_confirms_first [of "\<lambda>e. False" ?p "''c1''" False "Rejects \<lparr>message = None\<rparr>"]
    by auto
  with n have "handleDelete (\<lambda>e. False) ?p ''c1'' False (Rejects \<lparr>message = None\<rparr>)
      = (None, ?p, [Confirm [Loc Are_you_sure_to_delete, Str ''Ali'', Loc Question_mark_blank_line,
                   Loc This_action_cannot_be_undone]])"
    by (simp add: confirmText_def)
  with m d g show ?thesis by simp
qed

subsection \<open>The populated grid\<close>

text \<open>
  Claim C7. For a loaded, non-empty list the grid has one card per record, in the order
  of the list: the card at each position is the card of the record at that position.
\<close>

theorem populated_grid_order:
  assumes "useQuery (queries p) (queryKey p) = (cs, False)" "cs \<noteq> []"
  shows "customersGrid p = Cards (map (renderCard (isPending p)) cs)
       \<and> length (cardsOf (customersGrid p)) = length cs
       \<and> map card_key (cardsOf (customersGrid p)) = map customerId cs
       \<and> (\<forall>k<length cs. cardsOf (customersGrid p) ! k = renderCard (isPending p) (cs ! k))"
  using assms
  by (simp add: customersGrid_loaded cardsOf_def card_key_renderCard comp_def)

theorem populated_grid_order_witness:
  "useQuery (queries (samplePage [] [sara, ali, omar])) (queryKey (samplePage [] [sara, ali, omar]))
      = ([sara, ali, omar], False)
   \<and> [sara, ali, omar] \<noteq> []
   \<and> length (cardsOf (customersGrid (samplePage [] [sara, ali, omar]))) = 3
   \<and> map card_key (cardsOf (customersGrid (samplePage [] [sara, ali, omar]))) = [''c2'', ''c1'', ''c3'']"
proof -
  have ne: "[sara, ali, omar] \<noteq> []" by simp
  have ids: "map customerId [sara, ali, omar] = [''c2'', ''c1'', ''c3'']"
    by (simp add: ali_def sara_def omar_def sampleCustomer_def)
  have "length (cardsOf (customersGrid (samplePage [] [sara, ali, omar]))) = length [sara, ali, omar]"
    "map card_key (cardsOf (customersGrid (samplePage [] [sara, ali, omar])))
       = map customerId [sara, ali, omar]"
    using populated_grid_order [OF useQuery_samplePage [of "[]" "[sara, ali, omar]"] ne]
    by blast+
  with ids show ?thesis
    by (simp add: useQuery_samplePage)
qed

text \<open>
  Claim C8. While the delete mutation is pending, the delete button of every card is
  disabled and shows the spinner, whichever record is being deleted; otherwise every
  delete button is enabled and shows the bin. The mutation is pending as soon as a delete
  has been confirmed, and the cards are the same as before.
\<close>

theorem pending_disables_every_delete_button:
  "(isPending p \<longrightarrow>
      (\<forall>c \<in> set (cardsOf (customersGrid p)).
         disabled (delete_button c) \<and> icon (delete_button c) = Spinner))
   \<and> (\<not> isPending p \<longrightarrow>
      (\<forall>c \<in> set (cardsOf (customersGrid p)).
         \<not> disabled (delete_button c) \<and> icon (delete_button c) = Trash2))
   \<and> isPending (fst (handleDelete_start p i True))
   \<and> map card_key (cardsOf (customersGrid (fst (handleDelete_start p i True))))
       = map card_key (cardsOf (customersGrid p))"
  by (auto simp: cardsOf_customersGrid delete_button_renderCard handleDelete_start_def
      mutateAsync_start_def Let_def queryKey_def customers_def card_key_renderCard comp_def)

theorem pending_disables_every_delete_button_witness:
  "isPending (fst (handleDelete_start (samplePage [] [ali, sara]) ''c1'' True))
   \<and> map (\<lambda>c. (card_key c, disabled (delete_button c), icon (delete_button c)))
        (cardsOf (customersGrid (fst (handleDelete_start (samplePage [] [ali, sara]) ''c1'' True))))
       = [(''c1'', True, Spinner), (''c2'', True, Spinner)]"
proof -
  let ?p = "samplePage [] [ali, sara]"
  let ?q = "fst (handleDelete_start ?p ''c1'' True)"
  have keys: "map card_key (cardsOf (customersGrid ?p)) = [''c1'', ''c2'']"
    by (simp add: cardsOf_customersGrid useQuery_samplePage customers_samplePage
        card_key_renderCard ali_def sara_def sampleCustomer_def)
  have pend: "isPending ?q"
    and same: "map card_key (cardsOf (customersGrid ?q)) = map card_key (cardsOf (customersGrid ?p))"
    using pending_disables_every_delete_button [of ?p "''c1''"] by blast+
  have all: "\<forall>c \<in> set (cardsOf (customersGrid ?q)).
         disabled (delete_button c) \<and> icon (delete_button c) = Spinner"
    using pending_disables_every_delete_button [of ?q] pend by blast
  from same keys have k: "map card_key (cardsOf (customersGrid ?q)) = [''c1'', ''c2'']" by simp
  then obtain a b where ab: "cardsOf (customersGrid ?q) = [a, b]" "card_key a = ''c1''"
    "card_key b = ''c2''"
    by (auto simp: map_eq_Cons_conv)
  with all have "disabled (delete_button a)" "icon (delete_button a) = Spinner"
    "disabled (delete_button b)" "icon (delete_button b) = Spinner" by simp_all
  with ab pend show ?thesis by simp
qed

end
